theory Spec2Isabelle
  imports Complex_Main
begin

section \<open>The log receiver (\<^verbatim>\<open>src/tools/log_receiver.py\<close>)\<close>

text \<open>
  The class \<^verbatim>\<open>LogReceiver\<close> handles one HTTP request at a time: \<^verbatim>\<open>do_POST\<close>,
  \<^verbatim>\<open>do_OPTIONS\<close> and \<^verbatim>\<open>do_GET\<close>. Each handler is modelled as a function from the request
  and the state it acts on (the unread input, the bytes written to the client, the lines
  printed) to the state afterwards. Exceptions are values of a sum type, so the
  \<^verbatim>\<open>try\<close>/\<^verbatim>\<open>except Exception\<close> of \<^verbatim>\<open>do_POST\<close> is a case distinction.

  Text: a Python \<^verbatim>\<open>str\<close> is a \<^typ>\<open>string\<close> with one \<^typ>\<open>char\<close> per character, and
  so is a \<^verbatim>\<open>bytes\<close> object with one \<^typ>\<open>char\<close> per byte. Case mapping is modelled on the
  ASCII letters; Python maps the other characters by the Unicode tables.

  Input and output: \<^verbatim>\<open>print\<close> and the writes to the client always succeed in the model
  (a console that cannot encode a line, or a connection that is gone, is not modelled).
\<close>

subsection \<open>Python values\<close>

text \<open>The exceptions, all subclasses of \<^verbatim>\<open>Exception\<close>.\<close>

datatype py_error =
  TypeError | ValueError | AttributeError | KeyError | OverflowError | MemoryError
  | RecursionError | UnicodeDecodeError | JSONDecodeError | OSError

text \<open>
  What \<^verbatim>\<open>json.loads\<close> returns: \<^verbatim>\<open>None\<close>, \<^verbatim>\<open>bool\<close>, \<^verbatim>\<open>int\<close>, \<^verbatim>\<open>float\<close> (\<^verbatim>\<open>NaN\<close> and the
  infinities are accepted by \<^verbatim>\<open>json.loads\<close>; both zeros are \<open>Finite 0\<close>), \<^verbatim>\<open>str\<close>, \<^verbatim>\<open>list\<close>
  and \<^verbatim>\<open>dict\<close> (keys are strings; the first entry of a key is the one looked up).
\<close>

datatype py_float = Finite real | PosInf | NegInf | NaN

datatype py_val =
  PyNone
  | PyBool bool
  | PyInt int
  | PyFloat py_float
  | PyStr string
  | PyList "py_val list"
  | PyDict "(string \<times> py_val) list"

text \<open>Truth value of an object, as \<^verbatim>\<open>if tag\<close> and \<^verbatim>\<open>if error:\<close> test it.\<close>

fun truthy :: "py_val \<Rightarrow> bool" where
  "truthy PyNone = False"
| "truthy (PyBool b) = b"
| "truthy (PyInt i) = (i \<noteq> 0)"
| "truthy (PyFloat f) = (f \<noteq> Finite 0)"
| "truthy (PyStr s) = (s \<noteq> [])"
| "truthy (PyList xs) = (xs \<noteq> [])"
| "truthy (PyDict kvs) = (kvs \<noteq> [])"

text \<open>\<^verbatim>\<open>x.get(key, default)\<close>: only a \<^verbatim>\<open>dict\<close> has the method.\<close>

fun py_get :: "py_val \<Rightarrow> string \<Rightarrow> py_val \<Rightarrow> py_error + py_val" where
  "py_get (PyDict kvs) key dflt = Inr (case map_of kvs key of Some v \<Rightarrow> v | None \<Rightarrow> dflt)"
| "py_get _ key dflt = Inl AttributeError"

text \<open>\<^verbatim>\<open>str.upper()\<close> and \<^verbatim>\<open>str.lower()\<close> on the ASCII letters.\<close>

definition upper_char :: "char \<Rightarrow> char" where
  "upper_char c =
     (let n = (of_char c :: nat) in if 97 \<le> n \<and> n \<le> 122 then char_of (n - 32) else c)"

definition lower_char :: "char \<Rightarrow> char" where
  "lower_char c =
     (let n = (of_char c :: nat) in if 65 \<le> n \<and> n \<le> 90 then char_of (n + 32) else c)"

definition upper :: "string \<Rightarrow> string" where
  "upper s = map upper_char s"

definition lower :: "string \<Rightarrow> string" where
  "lower s = map lower_char s"

text \<open>\<^verbatim>\<open>x.upper()\<close>: of the values of \<^verbatim>\<open>json.loads\<close> only a \<^verbatim>\<open>str\<close> has the method.\<close>

fun py_upper :: "py_val \<Rightarrow> py_error + string" where
  "py_upper (PyStr s) = Inr (upper s)"
| "py_upper _ = Inl AttributeError"

text \<open>
  \<^verbatim>\<open>x[i:j]\<close> with \<open>0 \<le> i \<le> j\<close>: a \<^verbatim>\<open>str\<close> and a \<^verbatim>\<open>list\<close> are sliced (a slice past the
  end is shorter or empty, never an error); a \<^verbatim>\<open>dict\<close> raises (\<^verbatim>\<open>TypeError\<close>, or
  \<^verbatim>\<open>KeyError\<close> from Python 3.12 on); \<^verbatim>\<open>None\<close> and the numbers are not subscriptable.
\<close>

fun py_slice :: "nat \<Rightarrow> nat \<Rightarrow> py_val \<Rightarrow> py_error + py_val" where
  "py_slice i j (PyStr s) = Inr (PyStr (take (j - i) (drop i s)))"
| "py_slice i j (PyList xs) = Inr (PyList (take (j - i) (drop i xs)))"
| "py_slice i j _ = Inl TypeError"

text \<open>
  The format specification \<^verbatim>\<open>{level:7}\<close> on a \<^verbatim>\<open>str\<close>: minimum width 7, and a string is
  aligned to the left by default, so the fill follows the text.
\<close>

definition format_width :: "nat \<Rightarrow> string \<Rightarrow> string" where
  "format_width w s = s @ replicate (w - length s) (CHR '' '')"

text \<open>Sequencing of steps that may raise.\<close>

definition and_then :: "py_error + 'a \<Rightarrow> ('a \<Rightarrow> py_error + 'b) \<Rightarrow> py_error + 'b" where
  "and_then r f = (case r of Inl e \<Rightarrow> Inl e | Inr x \<Rightarrow> f x)"

subsection \<open>The runtime\<close>

text \<open>
  The standard library and the machine, as far as the handlers call them. They are not
  code of the repository, so they are parameters of the model:
  \<^item> \<open>now_isoformat\<close>: \<^verbatim>\<open>datetime.now().isoformat()\<close>;
  \<^item> \<open>int_of_str\<close>: \<^verbatim>\<open>int(s)\<close> on a \<^verbatim>\<open>str\<close>;
  \<^item> \<open>rfile_read\<close>: \<^verbatim>\<open>rfile.read(n)\<close> on the unread input: the bytes returned and the
    bytes left;
  \<^item> \<open>decode_utf8\<close>: \<^verbatim>\<open>bytes.decode('utf-8')\<close>;
  \<^item> \<open>json_loads\<close>: \<^verbatim>\<open>json.loads\<close>;
  \<^item> \<open>str_of\<close>: \<^verbatim>\<open>str(x)\<close> of a value that is not a \<^verbatim>\<open>str\<close>;
  \<^item> \<open>exc_str\<close>: \<^verbatim>\<open>str(e)\<close> of an exception;
  \<^item> \<open>sock_name\<close>: the address \<^verbatim>\<open>getsockname()[0]\<close> of the probing socket in
    \<^verbatim>\<open>get_local_ip\<close>;
  \<^item> \<open>server_port\<close>: \<^verbatim>\<open>self.server.server_port\<close>;
  \<^item> \<open>encode_utf8\<close>: \<^verbatim>\<open>str.encode()\<close>.
\<close>

record runtime =
  now_isoformat :: string
  int_of_str :: "string \<Rightarrow> py_error + int"
  rfile_read :: "int \<Rightarrow> string \<Rightarrow> py_error + string \<times> string"
  decode_utf8 :: "string \<Rightarrow> py_error + string"
  json_loads :: "string \<Rightarrow> py_error + py_val"
  str_of :: "py_val \<Rightarrow> string"
  exc_str :: "py_error \<Rightarrow> string"
  sock_name :: "py_error + string"
  server_port :: nat
  encode_utf8 :: "string \<Rightarrow> string"

text \<open>A replacement field \<^verbatim>\<open>{x}\<close> of an f-string: \<^verbatim>\<open>str(x)\<close>, a \<^verbatim>\<open>str\<close> as it is.\<close>

fun py_str :: "runtime \<Rightarrow> py_val \<Rightarrow> string" where
  "py_str rt (PyStr s) = s"
| "py_str rt v = str_of rt v"

text \<open>A replacement field of \<^verbatim>\<open>str.format\<close> holding a non-negative \<^verbatim>\<open>int\<close>.\<close>

fun decimal :: "nat \<Rightarrow> string" where
  "decimal n =
     (if n < 10 then [char_of (48 + n)] else decimal (n div 10) @ [char_of (48 + n mod 10)])"

subsection \<open>The request and the handler's state\<close>

text \<open>
  \<open>path\<close> is \<^verbatim>\<open>self.path\<close>, \<open>headers\<close> is \<^verbatim>\<open>self.headers\<close>. What the handler writes to the
  client is the list of its calls: \<^verbatim>\<open>send_response\<close>, \<^verbatim>\<open>send_header\<close>, \<^verbatim>\<open>end_headers\<close>,
  \<^verbatim>\<open>wfile.write\<close> (the header lines \<^verbatim>\<open>Server\<close> and \<^verbatim>\<open>Date\<close> that the base class adds to every
  response by itself are not listed).
\<close>

record request =
  path :: string
  headers :: "(string \<times> string) list"

datatype event = Status nat | Header string string | End_headers | Body string

record state =
  rfile :: string
  wfile :: "event list"
  stdout :: "string list"

definition send_response :: "nat \<Rightarrow> state \<Rightarrow> state" where
  "send_response code st = st\<lparr>wfile := wfile st @ [Status code]\<rparr>"

definition send_header :: "string \<Rightarrow> string \<Rightarrow> state \<Rightarrow> state" where
  "send_header k v st = st\<lparr>wfile := wfile st @ [Header k v]\<rparr>"

definition end_headers :: "state \<Rightarrow> state" where
  "end_headers st = st\<lparr>wfile := wfile st @ [End_headers]\<rparr>"

definition wfile_write :: "string \<Rightarrow> state \<Rightarrow> state" where
  "wfile_write bs st = st\<lparr>wfile := wfile st @ [Body bs]\<rparr>"

definition print :: "string \<Rightarrow> state \<Rightarrow> state" where
  "print line st = st\<lparr>stdout := stdout st @ [line]\<rparr>"

text \<open>
  \<^verbatim>\<open>self.headers[name]\<close>: the names are compared in lower case, the first match is
  returned, and a missing header gives \<^verbatim>\<open>None\<close>.
\<close>

definition headers_get :: "(string \<times> string) list \<Rightarrow> string \<Rightarrow> string option" where
  "headers_get hs name = map_of (map (\<lambda>(k, v). (lower k, v)) hs) (lower name)"

subsection \<open>\<^verbatim>\<open>do_POST\<close>\<close>

text \<open>\<^verbatim>\<open>int(self.headers['Content-Length'])\<close>: \<^verbatim>\<open>int(None)\<close> raises \<^verbatim>\<open>TypeError\<close>.\<close>

definition content_length :: "runtime \<Rightarrow> request \<Rightarrow> py_error + int" where
  "content_length rt req =
     (case headers_get (headers req) ''Content-Length'' of
        None \<Rightarrow> Inl TypeError
      | Some v \<Rightarrow> int_of_str rt v)"

text \<open>
  Lines 25 to 27: the length, the read, the decoding. The read moves the input on, also
  when a later step raises.
\<close>

definition read_log_entry :: "runtime \<Rightarrow> request \<Rightarrow> state \<Rightarrow> (py_error + py_val) \<times> state" where
  "read_log_entry rt req st =
     (case content_length rt req of
        Inl e \<Rightarrow> (Inl e, st)
      | Inr n \<Rightarrow>
          (case rfile_read rt n (rfile st) of
             Inl e \<Rightarrow> (Inl e, st)
           | Inr (post_data, rest) \<Rightarrow>
               (and_then (decode_utf8 rt post_data) (json_loads rt), st\<lparr>rfile := rest\<rparr>)))"

text \<open>The palette of lines 37 to 43; \<^verbatim>\<open>\033\<close> is the escape character.\<close>

definition colors :: "(string \<times> string) list" where
  "colors =
     [(''DEBUG'', CHR 0x1B # ''[37m''),
      (''INFO'', CHR 0x1B # ''[36m''),
      (''WARNING'', CHR 0x1B # ''[33m''),
      (''ERROR'', CHR 0x1B # ''[31m'')]"

definition reset_color :: string where
  "reset_color = CHR 0x1B # ''[0m''"

text \<open>
  The five local variables of lines 30 to 34. \<^verbatim>\<open>level\<close> is the value of \<^verbatim>\<open>.upper()\<close>, a
  \<^verbatim>\<open>str\<close>; the other four are whatever \<^verbatim>\<open>.get\<close> returned.
\<close>

record log_record =
  timestamp :: py_val
  level :: string
  message :: py_val
  tag :: py_val
  error :: py_val

definition extract_fields :: "runtime \<Rightarrow> py_val \<Rightarrow> py_error + log_record" where
  "extract_fields rt log_entry =
     and_then (py_get log_entry ''timestamp'' (PyStr (now_isoformat rt))) (\<lambda>ts.
     and_then (and_then (py_get log_entry ''level'' (PyStr ''INFO'')) py_upper) (\<lambda>lv.
     and_then (py_get log_entry ''message'' (PyStr [])) (\<lambda>msg.
     and_then (py_get log_entry ''tag'' (PyStr [])) (\<lambda>tg.
     and_then (py_get log_entry ''error'' (PyStr [])) (\<lambda>err.
     Inr \<lparr>timestamp = ts, level = lv, message = msg, tag = tg, error = err\<rparr>)))))"

text \<open>
  Lines 37 to 49: the colour, the time and the line. The result is \<^verbatim>\<open>log_line\<close> and
  \<^verbatim>\<open>color\<close>.
\<close>

definition format_log_line :: "runtime \<Rightarrow> log_record \<Rightarrow> py_error + string \<times> string" where
  "format_log_line rt r =
     (let color = (case map_of colors (level r) of Some c \<Rightarrow> c | None \<Rightarrow> []) in
      and_then (py_slice 11 19 (timestamp r)) (\<lambda>time_str.
      let tag_str = (if truthy (tag r) then ''['' @ py_str rt (tag r) @ ''] '' else []);
          log_line = py_str rt time_str @ '' '' @ color @ format_width 7 (level r) @ reset_color
                     @ '' '' @ tag_str @ py_str rt (message r)
      in Inr (log_line, color)))"

text \<open>Lines 51 to 60: the prints and the response.\<close>

definition emit_log_entry :: "runtime \<Rightarrow> log_record \<Rightarrow> string \<times> string \<Rightarrow> state \<Rightarrow> state" where
  "emit_log_entry rt r lc st =
     (case lc of (log_line, color) \<Rightarrow>
        let st1 = print log_line st;
            st2 = (if truthy (error r)
                   then print (''         '' @ color @ ''ERROR:'' @ reset_color @ '' ''
                               @ py_str rt (error r)) st1
                   else st1)
        in wfile_write ''OK''
             (end_headers
               (send_header ''Access-Control-Allow-Origin'' ''*''
                 (send_header ''Content-type'' ''text/plain''
                   (send_response 200 st2)))))"

text \<open>
  The \<^verbatim>\<open>try\<close> block: the exception it ends with, if any, and the state at that point.
\<close>

definition try_block :: "runtime \<Rightarrow> request \<Rightarrow> state \<Rightarrow> py_error option \<times> state" where
  "try_block rt req st =
     (case read_log_entry rt req st of
        (Inl e, st1) \<Rightarrow> (Some e, st1)
      | (Inr log_entry, st1) \<Rightarrow>
          (case extract_fields rt log_entry of
             Inl e \<Rightarrow> (Some e, st1)
           | Inr r \<Rightarrow>
               (case format_log_line rt r of
                  Inl e \<Rightarrow> (Some e, st1)
                | Inr lc \<Rightarrow> (None, emit_log_entry rt r lc st1))))"

definition do_POST :: "runtime \<Rightarrow> request \<Rightarrow> state \<Rightarrow> state" where
  "do_POST rt req st =
     (if path req = ''/logs'' then
        (case try_block rt req st of
           (None, st1) \<Rightarrow> st1
         | (Some e, st1) \<Rightarrow>
             end_headers (send_response 400 (print (''Error processing log: '' @ exc_str rt e) st1)))
      else end_headers (send_response 404 st))"

subsection \<open>\<^verbatim>\<open>do_OPTIONS\<close> and \<^verbatim>\<open>do_GET\<close>\<close>

definition do_OPTIONS :: "runtime \<Rightarrow> request \<Rightarrow> state \<Rightarrow> state" where
  "do_OPTIONS rt req st =
     end_headers
       (send_header ''Access-Control-Allow-Headers'' ''Content-Type''
         (send_header ''Access-Control-Allow-Methods'' ''POST, OPTIONS''
           (send_header ''Access-Control-Allow-Origin'' ''*''
             (send_response 200 st))))"

definition get_local_ip :: "runtime \<Rightarrow> string" where
  "get_local_ip rt = (case sock_name rt of Inr ip \<Rightarrow> ip | Inl e \<Rightarrow> ''127.0.0.1'')"

definition nl :: string where
  "nl = [CHR 0x0A]"

definition status_page :: "string \<Rightarrow> nat \<Rightarrow> string" where
  "status_page host port =
     nl @ ''            <html>'' @ nl
     @ ''            <head><title>PoseTrainer Log Receiver</title></head>'' @ nl
     @ ''            <body>'' @ nl
     @ ''                <h1>PoseTrainer Log Receiver</h1>'' @ nl
     @ ''                <p>Status: Running</p>'' @ nl
     @ ''                <p>Listening for logs at: <code>POST /logs</code></p>'' @ nl
     @ ''                <p>Configure your app to send logs to:</p>'' @ nl
     @ ''                <pre>http://'' @ host @ '':'' @ decimal port @ ''/logs</pre>'' @ nl
     @ ''            </body>'' @ nl
     @ ''            </html>'' @ nl
     @ ''            ''"

definition do_GET :: "runtime \<Rightarrow> request \<Rightarrow> state \<Rightarrow> state" where
  "do_GET rt req st =
     (if path req = ''/'' then
        let response = status_page (get_local_ip rt) (server_port rt)
        in wfile_write (encode_utf8 rt response)
             (end_headers (send_header ''Content-type'' ''text/html'' (send_response 200 st)))
      else end_headers (send_response 404 st))"

text \<open>
  The base class calls the handler named after the verb of the request; these three are
  the ones the class defines (the base class itself answers any other verb).
\<close>

datatype verb = GET | POST | OPTIONS

fun handle :: "verb \<Rightarrow> runtime \<Rightarrow> request \<Rightarrow> state \<Rightarrow> state" where
  "handle GET = do_GET"
| "handle POST = do_POST"
| "handle OPTIONS = do_OPTIONS"

subsection \<open>What one call wrote\<close>

text \<open>The events sent and the lines printed between two states.\<close>

definition sent :: "state \<Rightarrow> state \<Rightarrow> event list" where
  "sent st st' = drop (length (wfile st)) (wfile st')"

definition printed :: "state \<Rightarrow> state \<Rightarrow> string list" where
  "printed st st' = drop (length (stdout st)) (stdout st')"



text \<open>The line of the \<^verbatim>\<open>except\<close> branch.\<close>

definition error_note :: "runtime \<Rightarrow> py_error \<Rightarrow> string" where
  "error_note rt e = ''Error processing log: '' @ exc_str rt e"




definition field_or :: "(string \<times> py_val) list \<Rightarrow> string \<Rightarrow> py_val \<Rightarrow> py_val" where
  "field_or kvs key dflt = (case map_of kvs key of Some v \<Rightarrow> v | None \<Rightarrow> dflt)"




subsection \<open>Two notions of the specification\<close>


definition is_digit :: "char \<Rightarrow> bool" where
  "is_digit c \<longleftrightarrow> 48 \<le> (of_char c :: nat) \<and> (of_char c :: nat) \<le> 57"

definition spec_iso8601_shape :: "string \<Rightarrow> bool" where
  "spec_iso8601_shape s \<longleftrightarrow>
     19 \<le> length s
     \<and> list_all (\<lambda>i. is_digit (s ! i)) [0, 1, 2, 3, 5, 6, 8, 9, 11, 12, 14, 15, 17, 18]
     \<and> s ! 4 = CHR ''-'' \<and> s ! 7 = CHR ''-'' \<and> s ! 10 = CHR ''T''
     \<and> s ! 13 = CHR '':'' \<and> s ! 16 = CHR '':''"

subsection \<open>A sample runtime\<close>

text \<open>
  One runtime to evaluate the handlers on: a fixed clock, a reader of plain decimal digits,
  a reader that takes the first \<open>n\<close> bytes, an ASCII decoder and a table of bodies with
  the values \<^verbatim>\<open>json.loads\<close> gives for them (any other body is rejected). The texts of
  \<open>str_of\<close> and \<open>exc_str\<close> are placeholders: no sample formats a value that is not a
  \<^verbatim>\<open>str\<close>, and no statement below depends on the text of an exception.
\<close>

definition ascii_int :: "string \<Rightarrow> py_error + int" where
  "ascii_int s =
     (if s \<noteq> [] \<and> list_all is_digit s
      then Inr (foldl (\<lambda>a c. 10 * a + (of_char c - 48)) 0 s)
      else Inl ValueError)"

definition body_empty_object :: string where
  \<open>body_empty_object = ''{}''\<close>

definition body_level_number :: string where
  \<open>body_level_number = ''{"level": 5}''\<close>

definition body_timestamp_number :: string where
  \<open>body_timestamp_number = ''{"timestamp": 5}''\<close>

definition body_array :: string where
  \<open>body_array = ''[1, 2]''\<close>

definition body_odd_timestamp :: string where
  \<open>body_odd_timestamp = ''{"timestamp": "not a timestamp at all"}''\<close>

definition body_info_hello :: string where
  \<open>body_info_hello = ''{"level": "info", "message": "hello"}''\<close>

definition body_disk_full :: string where
  \<open>body_disk_full = ''{"level":"error","message":"disk full","tag":"io","error":"ENOSPC"}''\<close>


definition sample_bodies :: "(string \<times> py_val) list" where
  "sample_bodies =
     [(body_empty_object, PyDict []),
      (body_level_number, PyDict [(''level'', PyInt 5)]),
      (body_timestamp_number, PyDict [(''timestamp'', PyInt 5)]),
      (body_array, PyList [PyInt 1, PyInt 2]),
      (body_odd_timestamp, PyDict [(''timestamp'', PyStr ''not a timestamp at all'')]),
      (body_info_hello, PyDict [(''level'', PyStr ''info''), (''message'', PyStr ''hello'')]),
      (body_disk_full,
         PyDict [(''level'', PyStr ''error''), (''message'', PyStr ''disk full''),
                 (''tag'', PyStr ''io''), (''error'', PyStr ''ENOSPC'')])]"

definition sample_runtime :: runtime where
  "sample_runtime =
     \<lparr>now_isoformat = ''2025-01-02T03:04:05.000006'',
      int_of_str = ascii_int,
      rfile_read = (\<lambda>n buf. if n < - 1 then Inl ValueError
                     else if n = - 1 then Inr (buf, [])
                     else Inr (take (nat n) buf, drop (nat n) buf)),
      decode_utf8 = (\<lambda>bs. if list_all (\<lambda>c. (of_char c :: nat) < 128) bs then Inr bs
                      else Inl UnicodeDecodeError),
      json_loads = (\<lambda>s. case map_of sample_bodies s of
                            Some v \<Rightarrow> Inr v | None \<Rightarrow> Inl JSONDecodeError),
      str_of = (\<lambda>v. ''<object>''),
      exc_str = (\<lambda>e. ''<exception>''),
      sock_name = Inr ''192.168.1.20'',
      server_port = 8080,
      encode_utf8 = (\<lambda>s. s)\<rparr>"

text \<open>A POST to \<^verbatim>\<open>/logs\<close> with the length of its body, and the state it arrives in.\<close>

definition post_logs :: "string \<Rightarrow> request" where
  "post_logs body = \<lparr>path = ''/logs'', headers = [(''Content-Length'', decimal (length body))]\<rparr>"

definition arriving :: "string \<Rightarrow> state" where
  "arriving body = \<lparr>rfile = body, wfile = [], stdout = []\<rparr>"

definition post_no_length :: request where
  "post_no_length = \<lparr>path = ''/logs'', headers = []\<rparr>"

definition unknown_path :: request where
  "unknown_path = \<lparr>path = ''/unknown'', headers = []\<rparr>"

section \<open>Properties\<close>

text \<open>What the steps of \<^verbatim>\<open>do_POST\<close> do to the output, and when they raise.\<close>

lemmas io_defs = send_response_def send_header_def end_headers_def wfile_write_def print_def



lemma read_log_entry_no_length:
  "content_length rt req = Inl e \<Longrightarrow> read_log_entry rt req st = (Inl e, st)"
  by (simp add: read_log_entry_def)







lemma extract_fields_dict:
  "extract_fields rt (PyDict kvs) =
     (case field_or kvs ''level'' (PyStr ''INFO'') of
        PyStr s \<Rightarrow>
          Inr \<lparr>timestamp = field_or kvs ''timestamp'' (PyStr (now_isoformat rt)),
               level = upper s,
               message = field_or kvs ''message'' (PyStr []),
               tag = field_or kvs ''tag'' (PyStr []),
               error = field_or kvs ''error'' (PyStr [])\<rparr>
      | _ \<Rightarrow> Inl AttributeError)"
  by (simp add: extract_fields_def and_then_def field_or_def split: py_val.splits option.splits)











subsection \<open>The failure path\<close>

text \<open>
  C10. A POST to \<^verbatim>\<open>/logs\<close> that has no \<^verbatim>\<open>Content-Length\<close> header, or one on which \<^verbatim>\<open>int\<close>
  raises, is answered 400 with no header and no body: the exception is caught in the
  handler, which returns with the error note as the only line printed and the input
  unread.
\<close>

theorem post_without_content_length:
  assumes "path req = ''/logs''"
    and "headers_get (headers req) ''Content-Length'' = None
         \<or> (\<exists>v e. headers_get (headers req) ''Content-Length'' = Some v \<and> int_of_str rt v = Inl e)"
  shows "sent st (do_POST rt req st) = [Status 400, End_headers]
         \<and> (\<exists>e. printed st (do_POST rt req st) = [error_note rt e])
         \<and> rfile (do_POST rt req st) = rfile st"
proof -
  from assms(2) obtain e where "content_length rt req = Inl e"
    by (auto simp: content_length_def)
  then have tb: "try_block rt req st = (Some e, st)"
    by (simp add: try_block_def read_log_entry_no_length)
  with assms(1) have "do_POST rt req st =
      end_headers (send_response 400 (print (error_note rt e) st))"
    by (simp add: do_POST_def error_note_def)
  then show ?thesis
    by (auto simp: io_defs sent_def printed_def)
qed

text \<open>A POST without any header, on the sample runtime.\<close>

theorem post_without_content_length_witness:
  "sent (arriving body_empty_object) (do_POST sample_runtime post_no_length (arriving body_empty_object))
     = [Status 400, End_headers]
   \<and> (\<exists>e. printed (arriving body_empty_object)
             (do_POST sample_runtime post_no_length (arriving body_empty_object))
           = [error_note sample_runtime e])
   \<and> rfile (do_POST sample_runtime post_no_length (arriving body_empty_object))
       = rfile (arriving body_empty_object)"
proof -
  have p: "path post_no_length = ''/logs''"
    by (simp add: post_no_length_def)
  have h: "headers_get (headers post_no_length) ''Content-Length'' = None
         \<or> (\<exists>v e. headers_get (headers post_no_length) ''Content-Length'' = Some v
                \<and> int_of_str sample_runtime v = Inl e)"
    by (simp add: post_no_length_def headers_get_def)
  show ?thesis
    by (rule post_without_content_length [OF p h])
qed





subsection \<open>The responses\<close>



text \<open>
  C8. Every OPTIONS request is answered 200 with exactly the three CORS headers and no
  body, whatever the request and whatever input is waiting; the input is left unread and
  nothing is printed. This holds for every path, so for \<^verbatim>\<open>/logs\<close>.
\<close>

theorem options_preflight:
  "sent st (do_OPTIONS rt req st) =
     [Status 200,
      Header ''Access-Control-Allow-Origin'' ''*'',
      Header ''Access-Control-Allow-Methods'' ''POST, OPTIONS'',
      Header ''Access-Control-Allow-Headers'' ''Content-Type'',
      End_headers]
   \<and> rfile (do_OPTIONS rt req st) = rfile st
   \<and> stdout (do_OPTIONS rt req st) = stdout st"
  by (simp add: do_OPTIONS_def io_defs sent_def)

text \<open>
  C2 (as amended). The claim is that a path other than \<^verbatim>\<open>/logs\<close> and \<^verbatim>\<open>/\<close> gives 404 for
  all methods, OPTIONS included. What holds: for every GET or POST request whose path is
  neither \<^verbatim>\<open>/logs\<close> nor \<^verbatim>\<open>/\<close> the response is 404 with no header and no body.
\<close>

theorem unknown_path_not_found:
  assumes "path req \<noteq> ''/logs''" and "path req \<noteq> ''/''" and "m = GET \<or> m = POST"
  shows "sent st (handle m rt req st) = [Status 404, End_headers]"
  using assms by (auto simp: do_GET_def do_POST_def io_defs sent_def)

text \<open>GET \<^verbatim>\<open>/unknown\<close> on the sample runtime.\<close>

theorem unknown_path_not_found_witness:
  "sent (arriving []) (handle GET sample_runtime unknown_path (arriving []))
     = [Status 404, End_headers]"
proof -
  have "path unknown_path \<noteq> ''/logs''" and "path unknown_path \<noteq> ''/''"
    by (simp_all add: unknown_path_def)
  then show ?thesis
    by (rule unknown_path_not_found) simp
qed

text \<open>
  C2, the claim as stated fails: OPTIONS \<^verbatim>\<open>/unknown\<close> is answered 200 with the CORS
  headers, not 404, since \<^verbatim>\<open>do_OPTIONS\<close> does not look at the path.
\<close>

theorem options_unknown_path_is_ok:
  "path unknown_path \<noteq> ''/logs'' \<and> path unknown_path \<noteq> ''/''
   \<and> sent (arriving []) (handle OPTIONS sample_runtime unknown_path (arriving []))
       = [Status 200,
          Header ''Access-Control-Allow-Origin'' ''*'',
          Header ''Access-Control-Allow-Methods'' ''POST, OPTIONS'',
          Header ''Access-Control-Allow-Headers'' ''Content-Type'',
          End_headers]
   \<and> sent (arriving []) (handle OPTIONS sample_runtime unknown_path (arriving []))
       \<noteq> [Status 404, End_headers]"
  by code_simp

subsection \<open>The fields\<close>




text \<open>
  C3 (as amended). The claim is that a timestamp that is absent or does not parse as
  ISO-8601 is replaced by the current time. What holds: the timestamp of a decoded record
  is the current time when the field is absent, and the value of the field as it is when
  the field is present, whether it parses or not.
\<close>

theorem timestamp_default_or_verbatim:
  assumes "extract_fields rt (PyDict kvs) = Inr r"
  shows "timestamp r =
           (case map_of kvs ''timestamp'' of
              None \<Rightarrow> PyStr (now_isoformat rt)
            | Some v \<Rightarrow> v)"
  using assms
  by (auto simp: extract_fields_dict field_or_def split: py_val.splits option.splits)

text \<open>The empty object on the sample runtime: the timestamp is the clock's.\<close>

theorem timestamp_default_or_verbatim_witness:
  "timestamp \<lparr>timestamp = PyStr ''2025-01-02T03:04:05.000006'', level = ''INFO'',
              message = PyStr [], tag = PyStr [], error = PyStr []\<rparr>
   = PyStr (now_isoformat sample_runtime)"
proof -
  have h: "extract_fields sample_runtime (PyDict []) =
      Inr \<lparr>timestamp = PyStr ''2025-01-02T03:04:05.000006'', level = ''INFO'',
           message = PyStr [], tag = PyStr [], error = PyStr []\<rparr>"
    by code_simp
  from timestamp_default_or_verbatim [OF h] show ?thesis
    by simp
qed

text \<open>
  C3, the claim as stated fails: the timestamp \<^verbatim>\<open>not a timestamp at all\<close> has not the
  ISO-8601 shape, and it is kept; the console shows its characters 11 to 19, not the time
  of the clock.
\<close>

theorem odd_timestamp_used_verbatim:
  "\<not> spec_iso8601_shape ''not a timestamp at all''
   \<and> map_sum id timestamp
        (extract_fields sample_runtime (PyDict [(''timestamp'', PyStr ''not a timestamp at all'')]))
       = Inr (PyStr ''not a timestamp at all'')
   \<and> ''not a timestamp at all'' \<noteq> now_isoformat sample_runtime
   \<and> fst (read_log_entry sample_runtime (post_logs body_odd_timestamp) (arriving body_odd_timestamp))
       = Inr (PyDict [(''timestamp'', PyStr ''not a timestamp at all'')])
   \<and> printed (arriving body_odd_timestamp)
        (do_POST sample_runtime (post_logs body_odd_timestamp) (arriving body_odd_timestamp))
       = [''tamp at  '' @ CHR 0x1B # ''[36mINFO   '' @ CHR 0x1B # ''[0m '']"
  by code_simp






end
